theory Spec2Isabelle
  imports Complex_Main
begin

section \<open>JavaScript values used by the front end\<close>

text \<open>
  A JavaScript number is \<open>NaN\<close> or a finite value. Only two things are ever done with the
  numbers of this program: they are tested for truthiness and they are copied into a
  request body, so the finite values are taken as rationals.
\<close>

datatype jsnum = NaN | Num rat

datatype jsval = JUndefined | JNull | JStr string | JNum jsnum

text \<open>JavaScript truthiness: \<open>!v\<close> holds for \<open>undefined\<close>, \<open>null\<close>, \<open>''\<close>, \<open>0\<close> and \<open>NaN\<close>.\<close>

fun falsy :: "jsval \<Rightarrow> bool" where
  "falsy JUndefined = True"
| "falsy JNull = True"
| "falsy (JStr s) = (s = [])"
| "falsy (JNum NaN) = True"
| "falsy (JNum (Num q)) = (q = 0)"

text \<open>Truthiness of a value that is a string or \<open>null\<close>/\<open>undefined\<close> (\<open>None\<close>).\<close>

fun truthy_str :: "string option \<Rightarrow> bool" where
  "truthy_str None = False"
| "truthy_str (Some s) = (s \<noteq> [])"

text \<open>
  \<open>parseFloat\<close> and \<open>parseInt\<close> are built-ins of the language; the model takes them as
  parameters of this type.
\<close>

type_synonym parser = "jsval \<Rightarrow> jsnum"

section \<open>Requests and the actions a handler performs\<close>

text \<open>
  \<open>axios.defaults\<close> as the program sets it: App.js turns \<open>withCredentials\<close> on and names the
  cookie \<open>csrftoken\<close> and the header \<open>X-CSRFToken\<close> for the library's own cookie-to-header
  mechanism; LocalRankingGrid.js stores a fetched token in
  \<open>axios.defaults.headers.common['X-CSRFToken']\<close>. \<open>xsrfCookie\<close> is the value the library reads
  from the \<open>csrftoken\<close> cookie for a request, when there is one.
\<close>

record axios_defaults =
  commonCsrfHeader :: "string option"
  xsrfCookie :: "string option"

type_synonym headers = "(string \<times> string) list"

datatype http_method = GET | POST

record request =
  verb :: http_method
  url :: string
  params :: "(string \<times> jsval) list"
  body :: "(string \<times> jsval) list"
  withCredentials :: bool
  headers :: headers

definition csrf_header_name :: string where
  "csrf_header_name = ''X-CSRFToken''"

text \<open>
  The headers of the outgoing request: the cookie value, when the library finds one, is
  written last and wins; otherwise the headers of the call's own config come before the
  defaults. Lookup is \<open>map_of\<close>, which takes the first entry of a name.
\<close>

definition outgoing_headers :: "axios_defaults \<Rightarrow> headers \<Rightarrow> headers" where
  "outgoing_headers ax hs =
     (case xsrfCookie ax of
        Some c \<Rightarrow> (if c = [] then [] else [(csrf_header_name, c)])
      | None \<Rightarrow> []) @
     hs @
     (case commonCsrfHeader ax of Some t \<Rightarrow> [(csrf_header_name, t)] | None \<Rightarrow> [])"

text \<open>\<open>JSON.stringify\<close> leaves out the properties whose value is \<open>undefined\<close>.\<close>

definition serialized :: "(string \<times> jsval) list \<Rightarrow> (string \<times> jsval) list" where
  "serialized b = filter (\<lambda>kv. snd kv \<noteq> JUndefined) b"

section \<open>The data of a ranking result\<close>

record rank_cell =
  task_id :: string
  rank :: "int option"
  status :: string

record grid_params =
  grid_size :: "int option"
  radius_km :: "rat option"

record summary_counts =
  completed_count :: int
  failed_count :: int
  pending_count :: int

record rank_result =
  business_name :: string
  grid_parameters :: "grid_params option"
  summary :: "summary_counts option"
  rank_map :: "rank_cell list option"

record history_entry =
  h_grid_parameters :: "grid_params option"
  h_rank_map :: "rank_cell list option"
  created_at :: string

section \<open>LocalRankingGrid: state\<close>

text \<open>
  The fields of the form. Each holds whatever \<open>handleInputChange\<close> stored: the text of the
  input, or for an input of type \<open>number\<close> the parsed number, or \<open>''\<close> when that number is
  falsy.
\<close>

record form_data =
  businessName :: jsval
  businessLat :: jsval
  businessLng :: jsval
  gridSize :: jsval
  radiusKm :: jsval
  languageCode :: jsval
  device :: jsval
  targetDomain :: jsval

record grid_state =
  csrfToken :: "string option"
  formData :: form_data
  loading :: bool
  results :: "rank_result option"
  history :: "history_entry list"
  error :: string
  activeTab :: string
  axios :: axios_defaults

definition initial_formData :: form_data where
  "initial_formData =
     \<lparr>businessName = JStr [], businessLat = JStr [], businessLng = JStr [],
      gridSize = JNum (Num 3), radiusKm = JNum (Num 5), languageCode = JStr ''en'',
      device = JStr ''desktop'', targetDomain = JStr []\<rparr>"

definition initial_state :: "axios_defaults \<Rightarrow> grid_state" where
  "initial_state ax =
     \<lparr>csrfToken = None, formData = initial_formData, loading = False, results = None,
      history = [], error = [], activeTab = ''quick'', axios = ax\<rparr>"

text \<open>
  What a handler does, in order: the state setters it calls, the requests it sends and the
  navigation it asks for. A handler reads the state of the render it was created in, so the
  model computes the whole sequence from that state; the setters take effect when the
  sequence is applied to the state afterwards.
\<close>

datatype action =
    SetLoading bool
  | SetError string
  | SetResults "rank_result option"
  | SetCsrfToken string
  | SetHistory "history_entry list"
  | SetDefaultCsrfHeader string
  | Send request
  | Navigate string

fun apply_action :: "grid_state \<Rightarrow> action \<Rightarrow> grid_state" where
  "apply_action st (SetLoading b) = st\<lparr>loading := b\<rparr>"
| "apply_action st (SetError m) = st\<lparr>error := m\<rparr>"
| "apply_action st (SetResults r) = st\<lparr>results := r\<rparr>"
| "apply_action st (SetCsrfToken t) = st\<lparr>csrfToken := Some t\<rparr>"
| "apply_action st (SetHistory h) = st\<lparr>history := h\<rparr>"
| "apply_action st (SetDefaultCsrfHeader t) =
     st\<lparr>axios := (axios st)\<lparr>commonCsrfHeader := Some t\<rparr>\<rparr>"
| "apply_action st (Send r) = st"
| "apply_action st (Navigate p) = st"

definition run :: "action list \<Rightarrow> grid_state \<Rightarrow> grid_state" where
  "run acts st = foldl apply_action st acts"

definition sent :: "action list \<Rightarrow> request list" where
  "sent acts = concat (map (\<lambda>a. case a of Send r \<Rightarrow> [r] | _ \<Rightarrow> []) acts)"

section \<open>LocalRankingGrid: the two submission handlers\<close>

text \<open>What the server (or the network) answers to the token fetch and to the ranking request.\<close>

datatype csrf_outcome =
    CsrfFailed
  | CsrfResponse "string option"

record http_error =
  response_message :: "string option"
  response_error :: "string option"
  err_message :: "string option"

datatype post_outcome =
    PostOk rank_result
  | PostFailed http_error

definition csrf_url :: string where
  "csrf_url = ''http://localhost:8000/api/get-csrf-token/''"

definition history_url :: string where
  "history_url = ''http://localhost:8000/api/ranking/history/''"

definition quick_check_url :: string where
  "quick_check_url = ''http://localhost:8000/api/ranking/quick-check/''"

definition grid_check_url :: string where
  "grid_check_url = ''http://localhost:8000/api/ranking/grid-check/''"

definition required_fields_message :: string where
  "required_fields_message = ''Please fill in all required fields''"

definition refresh_message :: string where
  "refresh_message = ''Failed to get security token. Please try refreshing the page.''"

definition login_first_message :: string where
  "login_first_message = ''Please log in first''"

text \<open>\<open>a || d\<close> where \<open>a\<close> is a string or missing and \<open>d\<close> is a string.\<close>

fun or_else :: "string option \<Rightarrow> string \<Rightarrow> string" where
  "or_else None d = d"
| "or_else (Some s) d = (if s = [] then d else s)"

text \<open>\<open>a || b\<close> where both may be missing.\<close>

definition or_undefined :: "string option \<Rightarrow> string option \<Rightarrow> string option" where
  "or_undefined a b = (if truthy_str a then a else b)"

text \<open>\<open>formData.targetDomain || undefined\<close>\<close>

definition target_domain_value :: "form_data \<Rightarrow> jsval" where
  "target_domain_value fd = (if falsy (targetDomain fd) then JUndefined else targetDomain fd)"

text \<open>The test both handlers start with.\<close>

definition missing_required :: "form_data \<Rightarrow> bool" where
  "missing_required fd \<longleftrightarrow>
     falsy (businessName fd) \<or> falsy (businessLat fd) \<or> falsy (businessLng fd)"

definition csrf_request :: "axios_defaults \<Rightarrow> request" where
  "csrf_request ax =
     \<lparr>verb = GET, url = csrf_url, params = [], body = [], withCredentials = True,
      headers = outgoing_headers ax []\<rparr>"

definition quick_body :: "parser \<Rightarrow> form_data \<Rightarrow> (string \<times> jsval) list" where
  "quick_body pf fd =
     [(''business_name'', businessName fd),
      (''business_lat'', JNum (pf (businessLat fd))),
      (''business_lng'', JNum (pf (businessLng fd))),
      (''target_domain'', target_domain_value fd)]"

text \<open>
  The headers of the quick check's config. The token is
  \<open>csrfToken || axios.defaults.headers.common['X-CSRFToken']\<close>, with \<open>csrfToken\<close> the value
  of the render the handler belongs to.
\<close>

definition quick_config_headers :: "string option \<Rightarrow> axios_defaults \<Rightarrow> headers" where
  "quick_config_headers tok ax =
     [(''Content-Type'', ''application/json'')] @
     (case or_undefined tok (commonCsrfHeader ax) of
        Some t \<Rightarrow> [(csrf_header_name, t)]
      | None \<Rightarrow> []) @
     [(''X-Requested-With'', ''XMLHttpRequest'')]"

definition quick_check_request :: "parser \<Rightarrow> grid_state \<Rightarrow> axios_defaults \<Rightarrow> request" where
  "quick_check_request pf st ax =
     \<lparr>verb = POST, url = quick_check_url, params = [],
      body = quick_body pf (formData st), withCredentials = True,
      headers = outgoing_headers ax (quick_config_headers (csrfToken st) ax)\<rparr>"

definition quick_error_message :: "http_error \<Rightarrow> string" where
  "quick_error_message e =
     or_else (response_message e)
       (or_else (response_error e)
         (or_else (err_message e) ''Failed to perform quick check''))"

text \<open>The POST of the quick check and what follows it, given the defaults at that moment.\<close>

definition quick_post :: "parser \<Rightarrow> post_outcome \<Rightarrow> grid_state \<Rightarrow> axios_defaults \<Rightarrow> action list" where
  "quick_post pf po st ax =
     Send (quick_check_request pf st ax) #
     (case po of
        PostOk d \<Rightarrow> [SetResults (Some d)]
      | PostFailed e \<Rightarrow> [SetError (''Error: '' @ quick_error_message e)])"

definition handleQuickCheck ::
  "parser \<Rightarrow> bool \<Rightarrow> csrf_outcome \<Rightarrow> post_outcome \<Rightarrow> grid_state \<Rightarrow> action list" where
  "handleQuickCheck pf authenticated co po st =
     (if missing_required (formData st) then [SetError required_fields_message]
      else
        [SetLoading True, SetError [], SetResults None] @
        (if \<not> authenticated then [SetError login_first_message, Navigate ''/login'']
         else if truthy_str (csrfToken st) then quick_post pf po st (axios st)
         else
           Send (csrf_request (axios st)) #
           (case co of
              CsrfFailed \<Rightarrow> [SetError refresh_message]
            | CsrfResponse None \<Rightarrow> [SetError refresh_message]
            | CsrfResponse (Some t) \<Rightarrow>
                (if t = [] then [SetError refresh_message]
                 else
                   [SetCsrfToken t, SetDefaultCsrfHeader t] @
                   quick_post pf po st ((axios st)\<lparr>commonCsrfHeader := Some t\<rparr>)))) @
        [SetLoading False])"

definition advanced_body :: "parser \<Rightarrow> parser \<Rightarrow> form_data \<Rightarrow> (string \<times> jsval) list" where
  "advanced_body pf pint fd =
     [(''business_name'', businessName fd),
      (''business_lat'', JNum (pf (businessLat fd))),
      (''business_lng'', JNum (pf (businessLng fd))),
      (''grid_size'', JNum (pint (gridSize fd))),
      (''radius_km'', JNum (pf (radiusKm fd))),
      (''language_code'', languageCode fd),
      (''device'', device fd),
      (''target_domain'', target_domain_value fd)]"

definition grid_check_request :: "parser \<Rightarrow> parser \<Rightarrow> grid_state \<Rightarrow> request" where
  "grid_check_request pf pint st =
     \<lparr>verb = POST, url = grid_check_url, params = [],
      body = advanced_body pf pint (formData st), withCredentials = True,
      headers = outgoing_headers (axios st) [(''Content-Type'', ''application/json'')]\<rparr>"

definition handleAdvancedCheck ::
  "parser \<Rightarrow> parser \<Rightarrow> bool \<Rightarrow> post_outcome \<Rightarrow> grid_state \<Rightarrow> action list" where
  "handleAdvancedCheck pf pint authenticated po st =
     (if missing_required (formData st) then [SetError required_fields_message]
      else
        [SetLoading True, SetError [], SetResults None] @
        (if \<not> authenticated then [SetError login_first_message, Navigate ''/login'']
         else
           Send (grid_check_request pf pint st) #
           (case po of
              PostOk d \<Rightarrow> [SetResults (Some d)]
            | PostFailed e \<Rightarrow>
                [SetError (or_else (response_message e) ''Failed to perform grid check'')])) @
        [SetLoading False])"

definition requests_to :: "http_method \<Rightarrow> string \<Rightarrow> action list \<Rightarrow> request list" where
  "requests_to m u acts = filter (\<lambda>r. verb r = m \<and> url r = u) (sent acts)"

definition csrf_header_of :: "request \<Rightarrow> string option" where
  "csrf_header_of r = map_of (headers r) csrf_header_name"

definition navigations :: "action list \<Rightarrow> string list" where
  "navigations acts = concat (map (\<lambda>a. case a of Navigate p \<Rightarrow> [p] | _ \<Rightarrow> []) acts)"

section \<open>LocalRankingGrid: input changes and effects\<close>

text \<open>
  \<open>handleInputChange\<close> stores \<open>parseFloat(value) || ''\<close> for an input of type \<open>number\<close> and
  the text itself otherwise, under the name of the input. A name that is not a field of the
  form adds a property nothing reads.
\<close>

definition input_value :: "parser \<Rightarrow> string \<Rightarrow> string \<Rightarrow> jsval" where
  "input_value pf type value =
     (if type = ''number''
      then (if falsy (JNum (pf (JStr value))) then JStr [] else JNum (pf (JStr value)))
      else JStr value)"

definition set_field :: "string \<Rightarrow> jsval \<Rightarrow> form_data \<Rightarrow> form_data" where
  "set_field name v fd =
     (if name = ''businessName'' then fd\<lparr>businessName := v\<rparr>
      else if name = ''businessLat'' then fd\<lparr>businessLat := v\<rparr>
      else if name = ''businessLng'' then fd\<lparr>businessLng := v\<rparr>
      else if name = ''gridSize'' then fd\<lparr>gridSize := v\<rparr>
      else if name = ''radiusKm'' then fd\<lparr>radiusKm := v\<rparr>
      else if name = ''languageCode'' then fd\<lparr>languageCode := v\<rparr>
      else if name = ''device'' then fd\<lparr>device := v\<rparr>
      else if name = ''targetDomain'' then fd\<lparr>targetDomain := v\<rparr>
      else fd)"

definition handleInputChange ::
  "parser \<Rightarrow> string \<Rightarrow> string \<Rightarrow> string \<Rightarrow> grid_state \<Rightarrow> grid_state" where
  "handleInputChange pf name type value st =
     st\<lparr>formData := set_field name (input_value pf type value) (formData st)\<rparr>"

text \<open>The effect of the first render: fetch the token, keep it when the answer has one.\<close>

definition getCsrfToken :: "csrf_outcome \<Rightarrow> grid_state \<Rightarrow> action list" where
  "getCsrfToken co st =
     Send (csrf_request (axios st)) #
     (case co of
        CsrfFailed \<Rightarrow> []
      | CsrfResponse None \<Rightarrow> []
      | CsrfResponse (Some t) \<Rightarrow>
          (if t = [] then [] else [SetCsrfToken t, SetDefaultCsrfHeader t]))"

datatype history_outcome =
    HistoryFailed
  | HistoryResponse "history_entry list option"

definition history_request :: "axios_defaults \<Rightarrow> (string \<times> jsval) list \<Rightarrow> request" where
  "history_request ax ps =
     \<lparr>verb = GET, url = history_url, params = ps, body = [], withCredentials = True,
      headers = outgoing_headers ax []\<rparr>"

text \<open>\<open>setHistory(res.data?.results || [])\<close>, or nothing when the request failed.\<close>

definition history_answer :: "history_outcome \<Rightarrow> action list" where
  "history_answer ho =
     (case ho of
        HistoryFailed \<Rightarrow> []
      | HistoryResponse None \<Rightarrow> [SetHistory []]
      | HistoryResponse (Some hs) \<Rightarrow> [SetHistory hs])"

definition fetchHistory :: "bool \<Rightarrow> history_outcome \<Rightarrow> grid_state \<Rightarrow> action list" where
  "fetchHistory authenticated ho st =
     (if \<not> authenticated then []
      else
        Send (history_request (axios st)
               (if falsy (businessName (formData st)) then []
                else [(''business_name'', businessName (formData st))])) #
        history_answer ho)"

definition fetchHistoryByName :: "bool \<Rightarrow> history_outcome \<Rightarrow> grid_state \<Rightarrow> action list" where
  "fetchHistoryByName authenticated ho st =
     (if \<not> authenticated \<or> falsy (businessName (formData st)) then []
      else
        Send (history_request (axios st) [(''business_name'', businessName (formData st))]) #
        history_answer ho)"

text \<open>
  React runs every effect after the first render, and after a later render the effects of
  which a dependency differs from its value in the render before. The dependencies are
  \<open>[]\<close> for the token fetch, \<open>[isAuthenticated]\<close> for \<open>fetchHistory\<close> and
  \<open>[isAuthenticated, formData.businessName]\<close> for \<open>fetchHistoryByName\<close>. The operations
  started by one render are independent of each other; the model lists them in the order
  of the source.
\<close>

definition effects_on_mount ::
  "bool \<Rightarrow> csrf_outcome \<Rightarrow> history_outcome \<Rightarrow> history_outcome \<Rightarrow> grid_state \<Rightarrow> action list" where
  "effects_on_mount authenticated co ho1 ho2 st =
     getCsrfToken co st @ fetchHistory authenticated ho1 st
       @ fetchHistoryByName authenticated ho2 st"

definition effects_on_update ::
  "bool \<Rightarrow> jsval \<Rightarrow> bool \<Rightarrow> history_outcome \<Rightarrow> history_outcome \<Rightarrow> grid_state \<Rightarrow> action list" where
  "effects_on_update prev_authenticated prev_name authenticated ho1 ho2 st =
     (if prev_authenticated \<noteq> authenticated then fetchHistory authenticated ho1 st else []) @
     (if prev_authenticated \<noteq> authenticated \<or> prev_name \<noteq> businessName (formData st)
      then fetchHistoryByName authenticated ho2 st else [])"

section \<open>LocalRankingGrid: rendering the rank grid\<close>

text \<open>The dash shown for a missing rank, U+2014, as its three bytes.\<close>

definition em_dash :: string where
  "em_dash = [CHR 0xE2, CHR 0x80, CHR 0x94]"

datatype cell_content = ShowNumber int | ShowText string

record cell_view =
  cell_key :: string
  background :: string
  rank_text :: cell_content
  status_text :: string

record rank_grid_view =
  columns :: int
  cells :: "cell_view list"

text \<open>
  One cell: the background is chosen by \<open>cell.rank ? ... : (cell.status === 'failed' ? ... : ...)\<close>,
  the first line is \<open>cell.rank ?? dash\<close>, the second is \<open>cell.status\<close>.
\<close>

definition render_cell :: "rank_cell \<Rightarrow> cell_view" where
  "render_cell c =
     \<lparr>cell_key = task_id c,
      background =
        (if rank c \<noteq> None \<and> rank c \<noteq> Some 0 then ''#eef2ff''
         else if status c = ''failed'' then ''#fee2e2'' else ''#f9fafb''),
      rank_text = (case rank c of Some k \<Rightarrow> ShowNumber k | None \<Rightarrow> ShowText em_dash),
      status_text = status c\<rparr>"

text \<open>\<open>grid_parameters?.size || 3\<close>\<close>

definition grid_columns :: "grid_params option \<Rightarrow> int" where
  "grid_columns gp =
     (case gp of
        None \<Rightarrow> 3
      | Some p \<Rightarrow> (case grid_size p of None \<Rightarrow> 3 | Some n \<Rightarrow> (if n = 0 then 3 else n)))"

text \<open>
  The rank grid block of \<open>renderResults\<close>: present when \<open>rank_map\<close> is there and not empty,
  with one cell for each entry of \<open>rank_map\<close>, in its order.
\<close>

definition renderRankGrid :: "rank_result \<Rightarrow> rank_grid_view option" where
  "renderRankGrid r =
     (case rank_map r of
        None \<Rightarrow> None
      | Some cs \<Rightarrow>
          (if length cs > 0
           then Some \<lparr>columns = grid_columns (grid_parameters r), cells = map render_cell cs\<rparr>
           else None))"

record results_view =
  heading :: string
  grid_card :: "grid_params option"
  summary_card :: "summary_counts option"
  rank_grid :: "rank_grid_view option"

text \<open>
  \<open>renderResults\<close>: nothing without results; otherwise the heading, the cards for the grid
  parameters and the summary, and the rank grid. The location and timing cards and the
  three task lists are not part of the model.
\<close>

definition renderResults :: "grid_state \<Rightarrow> results_view option" where
  "renderResults st =
     (case results st of
        None \<Rightarrow> None
      | Some r \<Rightarrow>
          Some \<lparr>heading = business_name r, grid_card = grid_parameters r,
                summary_card = summary r, rank_grid = renderRankGrid r\<rparr>)"


definition rank_grid_cell_count :: "rank_result \<Rightarrow> nat" where
  "rank_grid_cell_count r = (case renderRankGrid r of None \<Rightarrow> 0 | Some g \<Rightarrow> length (cells g))"

text \<open>The latest saved grid, drawn from the first entry of the history the same way.\<close>

definition renderHistory :: "grid_state \<Rightarrow> rank_grid_view option" where
  "renderHistory st =
     (case history st of
        [] \<Rightarrow> None
      | h # _ \<Rightarrow>
          Some \<lparr>columns = grid_columns (h_grid_parameters h),
                cells = (case h_rank_map h of None \<Rightarrow> [] | Some cs \<Rightarrow> map render_cell cs)\<rparr>)"

section \<open>App: authentication state, logout and routes\<close>

text \<open>
  The state of \<open>App\<close> (its \<open>loading\<close> flag is \<open>appLoading\<close> here), the two storages of the
  browser, and the timers started by \<open>setTimeout\<close>: every timer of this program has the same
  callback, \<open>setLogoutInProgress(false)\<close>, so a pending timer is the time, in milliseconds,
  at which it is due. \<open>clock\<close> is the current time.
\<close>

record app_state =
  isAuthenticated :: bool
  user :: "string option"
  appLoading :: bool
  logoutInProgress :: bool
  localStorage :: "(string \<times> string) list"
  sessionStorage :: "(string \<times> string) list"
  timers :: "nat list"
  clock :: nat

datatype auth_outcome =
    AuthFailed
  | AuthResponse bool "string option"

definition check_auth_url :: string where
  "check_auth_url = ''http://localhost:8000/api/accounts/check-auth/''"

definition logout_url :: string where
  "logout_url = ''http://localhost:8000/api/accounts/logout/''"

text \<open>A call without a config of its own: \<open>axios.defaults.withCredentials\<close> is \<open>true\<close>.\<close>

definition plain_request :: "axios_defaults \<Rightarrow> http_method \<Rightarrow> string \<Rightarrow> request" where
  "plain_request ax m u =
     \<lparr>verb = m, url = u, params = [], body = [], withCredentials = True,
      headers = outgoing_headers ax []\<rparr>"

definition checkAuthStatus ::
  "axios_defaults \<Rightarrow> auth_outcome \<Rightarrow> app_state \<Rightarrow> app_state \<times> request list" where
  "checkAuthStatus ax ao s =
     (if logoutInProgress s
      then (s\<lparr>isAuthenticated := False, user := None, appLoading := False\<rparr>, [])
      else
        ((case ao of
            AuthResponse True u \<Rightarrow> s\<lparr>isAuthenticated := True, user := u, appLoading := False\<rparr>
          | AuthResponse False u \<Rightarrow>
              s\<lparr>isAuthenticated := False, user := None, appLoading := False\<rparr>
          | AuthFailed \<Rightarrow> s\<lparr>isAuthenticated := False, user := None, appLoading := False\<rparr>),
         [plain_request ax GET check_auth_url]))"

definition handleLogin :: "string option \<Rightarrow> app_state \<Rightarrow> app_state" where
  "handleLogin userData s = s\<lparr>isAuthenticated := True, user := userData\<rparr>"

text \<open>
  \<open>handleLogout\<close> up to its \<open>await\<close>: the flag and the authentication state are set at once
  and the logout request is sent.
\<close>

definition handleLogout_begin ::
  "axios_defaults \<Rightarrow> app_state \<Rightarrow> app_state \<times> request list" where
  "handleLogout_begin ax s =
     (s\<lparr>logoutInProgress := True, isAuthenticated := False, user := None\<rparr>,
      [plain_request ax POST logout_url])"

text \<open>
  \<open>handleLogout\<close> after the \<open>await\<close>: the answer to the request, success or failure, is only
  logged; both storages are cleared and a timer of 1000 ms is started.
\<close>

definition handleLogout_resume :: "app_state \<Rightarrow> app_state" where
  "handleLogout_resume s =
     (let s1 = s\<lparr>localStorage := [], sessionStorage := []\<rparr>
      in s1\<lparr>timers := timers s1 @ [clock s1 + 1000]\<rparr>)"

text \<open>
  The effect of \<open>App\<close> has the dependency \<open>[logoutInProgress]\<close>: \<open>checkAuthStatus\<close> runs after
  the first render and after a render in which the flag differs from the render before.
\<close>

definition auth_effect ::
  "bool \<Rightarrow> axios_defaults \<Rightarrow> auth_outcome \<Rightarrow> app_state \<Rightarrow> app_state \<times> request list" where
  "auth_effect prev_flag ax ao s =
     (if logoutInProgress s \<noteq> prev_flag then checkAuthStatus ax ao s else (s, []))"

text \<open>Time passes: the timers that are due run their callback and are gone.\<close>

definition elapse :: "nat \<Rightarrow> app_state \<Rightarrow> app_state" where
  "elapse d s =
     (let t = clock s + d in
      s\<lparr>clock := t,
        timers := filter (\<lambda>x. \<not> x \<le> t) (timers s),
        logoutInProgress :=
          (if filter (\<lambda>x. x \<le> t) (timers s) = [] then logoutInProgress s else False)\<rparr>)"

text \<open>Time passes, followed by the render it causes and that render's effect.\<close>

definition time_event ::
  "nat \<Rightarrow> axios_defaults \<Rightarrow> auth_outcome \<Rightarrow> app_state \<Rightarrow> app_state \<times> request list" where
  "time_event d ax ao s = auth_effect (logoutInProgress s) ax ao (elapse d s)"

text \<open>
  A logout whose request takes \<open>wait\<close> milliseconds: the first part of the handler, the
  render and effect it causes, the wait, and the rest of the handler.
\<close>

definition logout_event ::
  "axios_defaults \<Rightarrow> auth_outcome \<Rightarrow> nat \<Rightarrow> app_state \<Rightarrow> app_state \<times> request list" where
  "logout_event ax ao wait s =
     (let (s1, rs1) = handleLogout_begin ax s;
          (s2, rs2) = auth_effect (logoutInProgress s) ax ao s1;
          (s3, rs3) = time_event wait ax ao s2
      in (handleLogout_resume s3, rs1 @ rs2 @ rs3))"



section \<open>Concrete inputs\<close>

text \<open>\<open>parseFloat\<close> and \<open>parseInt\<close> on the arguments of the examples, which are numbers.\<close>

definition number_parser :: parser where
  "number_parser v = (case v of JNum n \<Rightarrow> n | _ \<Rightarrow> NaN)"

definition no_defaults :: axios_defaults where
  "no_defaults = \<lparr>commonCsrfHeader = None, xsrfCookie = None\<rparr>"

definition pizza_form :: form_data where
  "pizza_form =
     initial_formData\<lparr>businessName := JStr ''Pizza Place'',
       businessLat := JNum (Num 40.689199), businessLng := JNum (Num (- 73.975035))\<rparr>"

definition pizza_state :: grid_state where
  "pizza_state = (initial_state no_defaults)\<lparr>formData := pizza_form\<rparr>"

definition no_error :: http_error where
  "no_error = \<lparr>response_message = None, response_error = None, err_message = None\<rparr>"

definition pending_cell :: "string \<Rightarrow> rank_cell" where
  "pending_cell t = \<lparr>task_id = t, rank = None, status = ''pending''\<rparr>"

definition two_pending_result :: rank_result where
  "two_pending_result =
     \<lparr>business_name = ''Pizza Place'',
      grid_parameters = Some \<lparr>grid_size = Some 4, radius_km = Some 5\<rparr>,
      summary = Some \<lparr>completed_count = 0, failed_count = 0, pending_count = 2\<rparr>,
      rank_map = Some [pending_cell ''a'', pending_cell ''b'']\<rparr>"

definition fresh_app :: app_state where
  "fresh_app =
     \<lparr>isAuthenticated = True, user = Some ''u'', appLoading = False,
      logoutInProgress = False, localStorage = [(''signupEmail'', ''a@b.c'')],
      sessionStorage = [(''k'', ''v'')], timers = [], clock = 0\<rparr>"


text \<open>
  A user logs out, logs in again 600 ms later and logs out at once; both logout requests are
  answered immediately.
\<close>

definition relogin_state :: app_state where
  "relogin_state =
     handleLogin (Some ''u'')
       (fst (time_event 600 no_defaults AuthFailed
              (fst (logout_event no_defaults AuthFailed 0 fresh_app))))"

definition second_logout_state :: app_state where
  "second_logout_state = fst (logout_event no_defaults AuthFailed 0 relogin_state)"

section \<open>Facts about action sequences\<close>

lemma run_append: "run (xs @ ys) st = run ys (run xs st)"
  by (simp add: run_def)

lemma run_Cons: "run (a # xs) st = run xs (apply_action st a)"
  by (simp add: run_def)

lemma run_Nil: "run [] st = st"
  by (simp add: run_def)

lemma sent_append: "sent (xs @ ys) = sent xs @ sent ys"
  by (simp add: sent_def)

lemma sent_Cons: "sent (a # xs) = (case a of Send r \<Rightarrow> [r] | _ \<Rightarrow> []) @ sent xs"
  by (simp add: sent_def)

lemma sent_Nil: "sent [] = []"
  by (simp add: sent_def)

lemma navigations_append: "navigations (xs @ ys) = navigations xs @ navigations ys"
  by (simp add: navigations_def)

lemma navigations_Cons:
  "navigations (a # xs) = (case a of Navigate p \<Rightarrow> [p] | _ \<Rightarrow> []) @ navigations xs"
  by (simp add: navigations_def)

lemma navigations_Nil: "navigations [] = []"
  by (simp add: navigations_def)

lemmas trace_simps =
  run_append run_Cons run_Nil sent_append sent_Cons sent_Nil
  navigations_append navigations_Cons navigations_Nil

lemma empty_field_is_missing:
  "businessName fd = JStr [] \<or> businessLat fd = JStr [] \<or> businessLng fd = JStr []
     \<Longrightarrow> missing_required fd"
  by (auto simp: missing_required_def)

lemma pizza_form_valid: "\<not> missing_required (formData pizza_state)"
  by (simp add: pizza_state_def pizza_form_def missing_required_def initial_formData_def)

text \<open>
  A submission that passes the test of the required fields is the three opening setters,
  the middle part, and the closing \<open>setLoading(false)\<close> of the \<open>finally\<close> block.
\<close>

lemma quick_valid_unfold:
  assumes "\<not> missing_required (formData st)"
  shows "handleQuickCheck pf a co po st =
             [SetLoading True, SetError [], SetResults None] @
             (if \<not> a then [SetError login_first_message, Navigate ''/login'']
              else if truthy_str (csrfToken st) then quick_post pf po st (axios st)
              else
                Send (csrf_request (axios st)) #
                (case co of
                   CsrfFailed \<Rightarrow> [SetError refresh_message]
                 | CsrfResponse None \<Rightarrow> [SetError refresh_message]
                 | CsrfResponse (Some t) \<Rightarrow>
                     (if t = [] then [SetError refresh_message]
                      else
                        [SetCsrfToken t, SetDefaultCsrfHeader t] @
                        quick_post pf po st ((axios st)\<lparr>commonCsrfHeader := Some t\<rparr>)))) @
             [SetLoading False]"
  using assms by (simp add: handleQuickCheck_def)

lemma advanced_valid_unfold:
  assumes "\<not> missing_required (formData st)"
  shows "handleAdvancedCheck pf pint a po st =
             [SetLoading True, SetError [], SetResults None] @
             (if \<not> a then [SetError login_first_message, Navigate ''/login'']
              else
                Send (grid_check_request pf pint st) #
                (case po of
                   PostOk d \<Rightarrow> [SetResults (Some d)]
                 | PostFailed e \<Rightarrow>
                     [SetError (or_else (response_message e) ''Failed to perform grid check'')])) @
             [SetLoading False]"
  using assms by (simp add: handleAdvancedCheck_def)

lemma sent_quick_post: "sent (quick_post pf po st ax) = [quick_check_request pf st ax]"
  by (cases po) (simp_all add: quick_post_def trace_simps)

lemma run_quick_post_formData: "formData (run (quick_post pf po st ax) s) = formData s"
  by (cases po) (simp_all add: quick_post_def trace_simps)

lemma run_quick_post_csrfToken: "csrfToken (run (quick_post pf po st ax) s) = csrfToken s"
  by (cases po) (simp_all add: quick_post_def trace_simps)

lemma run_quick_post_axios: "axios (run (quick_post pf po st ax) s) = axios s"
  by (cases po) (simp_all add: quick_post_def trace_simps)

lemma url_csrf_request: "url (csrf_request ax) = csrf_url"
  by (simp add: csrf_request_def)

lemma url_quick_check_request: "url (quick_check_request pf st ax) = quick_check_url"
  by (simp add: quick_check_request_def)

lemma url_history_request: "url (history_request ax ps) = history_url"
  by (simp add: history_request_def)

lemma verb_history_request: "verb (history_request ax ps) = GET"
  by (simp add: history_request_def)

lemma sent_history_answer: "sent (history_answer ho) = []"
  by (cases ho) (simp_all add: history_answer_def trace_simps split: option.splits)

lemma sent_getCsrfToken: "sent (getCsrfToken co st) = [csrf_request (axios st)]"
  by (cases co) (simp_all add: getCsrfToken_def trace_simps split: option.splits)

lemma csrf_url_not_history: "csrf_url \<noteq> history_url"
  by (simp add: csrf_url_def history_url_def)

lemma checkAuthStatus_suppressed:
  "logoutInProgress s \<Longrightarrow>
     checkAuthStatus ax ao s
       = (s\<lparr>isAuthenticated := False, user := None, appLoading := False\<rparr>, [])"
  by (simp add: checkAuthStatus_def)

lemma checkAuthStatus_proceeds:
  "\<not> logoutInProgress s \<Longrightarrow> map url (snd (checkAuthStatus ax ao s)) = [check_auth_url]"
  by (simp add: checkAuthStatus_def plain_request_def)

section \<open>Validation\<close>

text \<open>
  C2. A submission, quick or advanced, whose business name, latitude or longitude is empty
  performs exactly one action, setting the message \<open>Please fill in all required fields\<close>:
  the handler returns before any request, so nothing is sent.
\<close>

theorem empty_required_field_no_network:
  assumes "businessName (formData st) = JStr [] \<or> businessLat (formData st) = JStr []
             \<or> businessLng (formData st) = JStr []"
  shows "handleQuickCheck pf a co po st = [SetError ''Please fill in all required fields'']
       \<and> handleAdvancedCheck pf pint a po st = [SetError ''Please fill in all required fields'']
       \<and> sent (handleQuickCheck pf a co po st) = []
       \<and> sent (handleAdvancedCheck pf pint a po st) = []
       \<and> error (run (handleQuickCheck pf a co po st) st) = ''Please fill in all required fields''
       \<and> error (run (handleAdvancedCheck pf pint a po st) st)
           = ''Please fill in all required fields''"
proof -
  have m: "missing_required (formData st)"
    using assms by (rule empty_field_is_missing)
  have q: "handleQuickCheck pf a co po st = [SetError required_fields_message]"
    using m by (simp add: handleQuickCheck_def)
  have g: "handleAdvancedCheck pf pint a po st = [SetError required_fields_message]"
    using m by (simp add: handleAdvancedCheck_def)
  show ?thesis
    unfolding q g by (simp add: trace_simps required_fields_message_def)
qed

theorem empty_required_field_no_network_witness:
  "businessName (formData (initial_state no_defaults)) = JStr []
   \<and> sent (handleQuickCheck number_parser True (CsrfResponse (Some ''tok''))
             (PostOk two_pending_result) (initial_state no_defaults)) = []
   \<and> sent (handleAdvancedCheck number_parser number_parser True
             (PostOk two_pending_result) (initial_state no_defaults)) = []
   \<and> error (run (handleQuickCheck number_parser True (CsrfResponse (Some ''tok''))
             (PostOk two_pending_result) (initial_state no_defaults)) (initial_state no_defaults))
       = ''Please fill in all required fields''"
proof -
  have h: "businessName (formData (initial_state no_defaults)) = JStr []"
    by (simp add: initial_state_def initial_formData_def)
  show ?thesis
    using h empty_required_field_no_network
            [of "initial_state no_defaults" number_parser True "CsrfResponse (Some ''tok'')"
                "PostOk two_pending_result" number_parser]
    by blast
qed

section \<open>Clearing of the previous outcome\<close>

text \<open>
  C10. A submission that passes the test of the required fields, quick or advanced, starts
  with \<open>setLoading(true)\<close>, \<open>setError('')\<close> and \<open>setResults(null)\<close>, before anything is sent,
  and ends with \<open>setLoading(false)\<close>. When it is over the loading flag is off, and either
  the results are empty and a message is set, or there is no message and the results are the
  answer to this very submission: a result of an earlier submission never stands beside a
  new message.
\<close>

theorem submission_clears_stale_results:
  assumes "\<not> missing_required (formData st)"
  shows "take 3 (handleQuickCheck pf a co po st) = [SetLoading True, SetError [], SetResults None]
       \<and> last (handleQuickCheck pf a co po st) = SetLoading False
       \<and> loading (run (handleQuickCheck pf a co po st) st) = False
       \<and> (results (run (handleQuickCheck pf a co po st) st) = None
            \<and> error (run (handleQuickCheck pf a co po st) st) \<noteq> []
          \<or> error (run (handleQuickCheck pf a co po st) st) = []
            \<and> (\<exists>d. po = PostOk d \<and> results (run (handleQuickCheck pf a co po st) st) = Some d))
       \<and> take 3 (handleAdvancedCheck pf pint a po st)
           = [SetLoading True, SetError [], SetResults None]
       \<and> last (handleAdvancedCheck pf pint a po st) = SetLoading False
       \<and> loading (run (handleAdvancedCheck pf pint a po st) st) = False
       \<and> (results (run (handleAdvancedCheck pf pint a po st) st) = None
            \<and> error (run (handleAdvancedCheck pf pint a po st) st) \<noteq> []
          \<or> error (run (handleAdvancedCheck pf pint a po st) st) = []
            \<and> (\<exists>d. po = PostOk d
                  \<and> results (run (handleAdvancedCheck pf pint a po st) st) = Some d))"
proof -
  note q = quick_valid_unfold [OF assms, of pf a co po]
  note g = advanced_valid_unfold [OF assms, of pf pint a po]
  have ne: "or_else x ''Failed to perform grid check'' \<noteq> []" for x
    by (cases x) auto
  have q1: "take 3 (handleQuickCheck pf a co po st) = [SetLoading True, SetError [], SetResults None]"
    unfolding q by simp
  have q2: "last (handleQuickCheck pf a co po st) = SetLoading False"
    unfolding q by simp
  have q3: "loading (run (handleQuickCheck pf a co po st) st) = False"
    unfolding q by (simp add: run_append run_Cons run_Nil)
  have q4: "results (run (handleQuickCheck pf a co po st) st) = None
            \<and> error (run (handleQuickCheck pf a co po st) st) \<noteq> []
          \<or> error (run (handleQuickCheck pf a co po st) st) = []
            \<and> (\<exists>d. po = PostOk d \<and> results (run (handleQuickCheck pf a co po st) st) = Some d)"
    unfolding q
    by (cases po; cases co)
       (auto simp: trace_simps quick_post_def login_first_message_def refresh_message_def
             split: option.splits)
  have g1: "take 3 (handleAdvancedCheck pf pint a po st)
           = [SetLoading True, SetError [], SetResults None]"
    unfolding g by simp
  have g2: "last (handleAdvancedCheck pf pint a po st) = SetLoading False"
    unfolding g by simp
  have g3: "loading (run (handleAdvancedCheck pf pint a po st) st) = False"
    unfolding g by (simp add: run_append run_Cons run_Nil)
  have g4: "results (run (handleAdvancedCheck pf pint a po st) st) = None
            \<and> error (run (handleAdvancedCheck pf pint a po st) st) \<noteq> []
          \<or> error (run (handleAdvancedCheck pf pint a po st) st) = []
            \<and> (\<exists>d. po = PostOk d
                  \<and> results (run (handleAdvancedCheck pf pint a po st) st) = Some d)"
    unfolding g
    by (cases po) (auto simp: trace_simps login_first_message_def ne)
  from q1 q2 q3 q4 g1 g2 g3 g4 show ?thesis by blast
qed

theorem submission_clears_stale_results_witness:
  "\<not> missing_required (formData pizza_state)
   \<and> take 3 (handleQuickCheck number_parser True CsrfFailed (PostFailed no_error) pizza_state)
       = [SetLoading True, SetError [], SetResults None]
   \<and> loading (run (handleAdvancedCheck number_parser number_parser True (PostFailed no_error)
                     pizza_state) pizza_state) = False"
  using pizza_form_valid
    submission_clears_stale_results
      [OF pizza_form_valid, where pf = number_parser and a = True and co = CsrfFailed
         and po = "PostFailed no_error" and pint = number_parser]
  by blast

section \<open>Submissions without authentication\<close>




section \<open>The quick check request\<close>

text \<open>
  C8, as stated, fails: a quick check with all required fields filled in, by an
  authenticated user, without a cached token and with a token fetch that fails, sends no POST
  at all, where the claim promises exactly one.
\<close>

theorem quick_check_post_counterexample:
  "\<not> missing_required (formData pizza_state)
   \<and> length (requests_to POST quick_check_url
        (handleQuickCheck number_parser True CsrfFailed (PostOk two_pending_result)
           pizza_state)) \<noteq> 1"
proof -
  have n: "\<not> truthy_str (csrfToken pizza_state)"
    by (simp add: pizza_state_def initial_state_def)
  have h: "requests_to POST quick_check_url
             (handleQuickCheck number_parser True CsrfFailed (PostOk two_pending_result)
                pizza_state) = []"
    unfolding quick_valid_unfold [OF pizza_form_valid]
    using n by (simp add: requests_to_def trace_simps csrf_request_def)
  show ?thesis
    using pizza_form_valid h by simp
qed

text \<open>
  C8, amended. A quick check that passes the test of the required fields sends exactly one
  POST to the quick check endpoint when the user is authenticated and a token is cached or
  the token fetch answers with one, and none otherwise; it never sends a POST elsewhere. The
  body of that POST holds \<open>business_name\<close>, \<open>business_lat\<close> and \<open>business_lng\<close>, the last two
  being \<open>parseFloat\<close> of the fields, and \<open>target_domain\<close>, which is \<open>undefined\<close> and so left
  out of the serialized body when the field is empty, and the field's value otherwise.
\<close>

theorem quick_check_single_post:
  assumes "\<not> missing_required (formData st)"
  shows "(authenticated \<and> (truthy_str (csrfToken st) \<or> (\<exists>t. t \<noteq> [] \<and> co = CsrfResponse (Some t)))
          \<longrightarrow> (\<exists>r. requests_to POST quick_check_url (handleQuickCheck pf authenticated co po st) = [r]
                 \<and> body r =
                     [(''business_name'', businessName (formData st)),
                      (''business_lat'', JNum (pf (businessLat (formData st)))),
                      (''business_lng'', JNum (pf (businessLng (formData st)))),
                      (''target_domain'', target_domain_value (formData st))]
                 \<and> map fst (serialized (body r)) =
                     (if falsy (targetDomain (formData st))
                      then [''business_name'', ''business_lat'', ''business_lng'']
                      else [''business_name'', ''business_lat'', ''business_lng'',
                            ''target_domain''])
                 \<and> (\<not> falsy (targetDomain (formData st)) \<longrightarrow>
                      map_of (serialized (body r)) ''target_domain''
                        = Some (targetDomain (formData st)))))
       \<and> (\<not> (authenticated \<and> (truthy_str (csrfToken st) \<or> (\<exists>t. t \<noteq> [] \<and> co = CsrfResponse (Some t))))
          \<longrightarrow> requests_to POST quick_check_url (handleQuickCheck pf authenticated co po st) = [])
       \<and> filter (\<lambda>r. verb r = POST) (sent (handleQuickCheck pf authenticated co po st))
           = requests_to POST quick_check_url (handleQuickCheck pf authenticated co po st)"
proof -
  have nu: "businessName (formData st) \<noteq> JUndefined"
    using assms by (auto simp: missing_required_def)
  have b: "map fst (serialized (quick_body pf (formData st))) =
             (if falsy (targetDomain (formData st))
              then [''business_name'', ''business_lat'', ''business_lng'']
              else [''business_name'', ''business_lat'', ''business_lng'', ''target_domain''])"
    using nu by (auto simp: serialized_def quick_body_def target_domain_value_def)
  have c: "\<not> falsy (targetDomain (formData st)) \<Longrightarrow>
             map_of (serialized (quick_body pf (formData st))) ''target_domain''
               = Some (targetDomain (formData st))"
    using nu by (auto simp: serialized_def quick_body_def target_domain_value_def)
  have r: "requests_to POST quick_check_url [Send (quick_check_request pf st ax)]
             = [quick_check_request pf st ax]" for ax
    by (simp add: requests_to_def trace_simps quick_check_request_def)
  have cs: "verb (csrf_request ax) = GET" for ax
    by (simp add: csrf_request_def)
  show ?thesis
    unfolding quick_valid_unfold [OF assms]
    using b c
    by (cases co)
       (auto simp: requests_to_def trace_simps sent_quick_post quick_check_request_def
                   quick_body_def cs split: option.splits)
qed

theorem quick_check_single_post_witness:
  "\<not> missing_required (formData pizza_state)
   \<and> (\<exists>r. requests_to POST quick_check_url
              (handleQuickCheck number_parser True (CsrfResponse (Some ''tok''))
                 (PostOk two_pending_result) pizza_state) = [r]
          \<and> map fst (serialized (body r))
              = [''business_name'', ''business_lat'', ''business_lng''])"
proof -
  have f: "falsy (targetDomain (formData pizza_state))"
    by (simp add: pizza_state_def pizza_form_def initial_formData_def)
  have t: "\<exists>t. t \<noteq> [] \<and> CsrfResponse (Some ''tok'') = CsrfResponse (Some t)"
    by simp
  show ?thesis
    using pizza_form_valid f t
      quick_check_single_post
        [OF pizza_form_valid, of True "CsrfResponse (Some ''tok'')" number_parser
            "PostOk two_pending_result"]
    by auto
qed

section \<open>Acquiring the token\<close>

text \<open>
  C4. The advanced check at a concrete input: the form is filled in, the user is
  authenticated and no token is cached. No token is fetched: the only request is the POST to
  the grid check endpoint, and afterwards there is still no token in the state.
\<close>

theorem advanced_check_fetches_no_token:
  "\<not> missing_required (formData pizza_state)
   \<and> csrfToken pizza_state = None
   \<and> requests_to GET csrf_url
        (handleAdvancedCheck number_parser number_parser True (PostOk two_pending_result)
           pizza_state) = []
   \<and> map verb (sent (handleAdvancedCheck number_parser number_parser True
                       (PostOk two_pending_result) pizza_state)) = [POST]
   \<and> map url (sent (handleAdvancedCheck number_parser number_parser True
                      (PostOk two_pending_result) pizza_state)) = [grid_check_url]
   \<and> csrfToken (run (handleAdvancedCheck number_parser number_parser True
                        (PostOk two_pending_result) pizza_state) pizza_state) = None"
proof -
  have n: "csrfToken pizza_state = None"
    by (simp add: pizza_state_def initial_state_def)
  have s: "sent (handleAdvancedCheck number_parser number_parser True
                   (PostOk two_pending_result) pizza_state)
             = [grid_check_request number_parser number_parser pizza_state]"
    unfolding advanced_valid_unfold [OF pizza_form_valid]
    by (simp add: trace_simps)
  have r: "requests_to GET csrf_url
             (handleAdvancedCheck number_parser number_parser True (PostOk two_pending_result)
                pizza_state) = []"
    unfolding requests_to_def s by (simp add: grid_check_request_def)
  have c: "csrfToken (run (handleAdvancedCheck number_parser number_parser True
                        (PostOk two_pending_result) pizza_state) pizza_state) = None"
    unfolding advanced_valid_unfold [OF pizza_form_valid]
    using n by (simp add: trace_simps)
  show ?thesis
    unfolding s using pizza_form_valid n r c s by (simp add: grid_check_request_def)
qed

text \<open>
  The quick check does acquire the token. With the required fields filled in, an
  authenticated user and no token cached, one token fetch is sent first. When it answers
  with a token, the quick check request follows, the token is kept in the state and in the
  default headers, and the next submission sends the quick check request alone. When the
  fetch fails or answers without a token, nothing else is sent, the message asks the user to
  refresh the page and the results stay empty.
\<close>

theorem quick_check_token_acquisition:
  assumes "\<not> missing_required (formData st)" and "\<not> truthy_str (csrfToken st)"
  shows "(\<forall>t. t \<noteq> [] \<longrightarrow>
            map url (sent (handleQuickCheck pf True (CsrfResponse (Some t)) po st))
              = [csrf_url, quick_check_url]
          \<and> csrfToken (run (handleQuickCheck pf True (CsrfResponse (Some t)) po st) st) = Some t
          \<and> commonCsrfHeader (axios (run (handleQuickCheck pf True (CsrfResponse (Some t)) po st) st))
              = Some t
          \<and> map url (sent (handleQuickCheck pf True co' po'
                             (run (handleQuickCheck pf True (CsrfResponse (Some t)) po st) st)))
              = [quick_check_url])
       \<and> (co = CsrfFailed \<or> co = CsrfResponse None \<or> co = CsrfResponse (Some []) \<longrightarrow>
            map url (sent (handleQuickCheck pf True co po st)) = [csrf_url]
          \<and> error (run (handleQuickCheck pf True co po st) st)
              = ''Failed to get security token. Please try refreshing the page.''
          \<and> results (run (handleQuickCheck pf True co po st) st) = None)
       \<and> sent (handleQuickCheck pf False co po st) = []"
proof -
  have ok: "map url (sent (handleQuickCheck pf True (CsrfResponse (Some t)) po st))
              = [csrf_url, quick_check_url]
          \<and> csrfToken (run (handleQuickCheck pf True (CsrfResponse (Some t)) po st) st) = Some t
          \<and> commonCsrfHeader (axios (run (handleQuickCheck pf True (CsrfResponse (Some t)) po st) st))
              = Some t
          \<and> map url (sent (handleQuickCheck pf True co' po'
                             (run (handleQuickCheck pf True (CsrfResponse (Some t)) po st) st)))
              = [quick_check_url]" if t: "t \<noteq> []" for t
  proof -
    let ?acts = "handleQuickCheck pf True (CsrfResponse (Some t)) po st"
    have a: "?acts = [SetLoading True, SetError [], SetResults None] @
                (Send (csrf_request (axios st)) #
                 [SetCsrfToken t, SetDefaultCsrfHeader t] @
                 quick_post pf po st ((axios st)\<lparr>commonCsrfHeader := Some t\<rparr>)) @
                [SetLoading False]"
      using assms t by (simp add: quick_valid_unfold)
    have 1: "map url (sent ?acts) = [csrf_url, quick_check_url]"
      unfolding a
      by (simp add: trace_simps sent_quick_post url_csrf_request url_quick_check_request)
    have 2: "csrfToken (run ?acts st) = Some t"
      unfolding a by (simp add: trace_simps run_quick_post_csrfToken)
    have 3: "commonCsrfHeader (axios (run ?acts st)) = Some t"
      unfolding a by (simp add: trace_simps run_quick_post_axios)
    have 4: "formData (run ?acts st) = formData st"
      unfolding a by (simp add: trace_simps run_quick_post_formData)
    have v: "\<not> missing_required (formData (run ?acts st))"
      using assms(1) 4 by simp
    have 5: "map url (sent (handleQuickCheck pf True co' po' (run ?acts st))) = [quick_check_url]"
      using 2 t
      by (simp add: quick_valid_unfold [OF v] trace_simps sent_quick_post
                    url_quick_check_request)
    from 1 2 3 5 show ?thesis by blast
  qed
  have bad: "map url (sent (handleQuickCheck pf True co po st)) = [csrf_url]
          \<and> error (run (handleQuickCheck pf True co po st) st) = refresh_message
          \<and> results (run (handleQuickCheck pf True co po st) st) = None"
    if "co = CsrfFailed \<or> co = CsrfResponse None \<or> co = CsrfResponse (Some [])"
    using that assms(2)
    by (auto simp: quick_valid_unfold [OF assms(1)] trace_simps url_csrf_request)
  have un: "sent (handleQuickCheck pf False co po st) = []"
    by (simp add: quick_valid_unfold [OF assms(1)] trace_simps)
  show ?thesis
    using ok bad un by (simp add: refresh_message_def)
qed

theorem quick_check_token_acquisition_witness:
  "\<not> missing_required (formData pizza_state)
   \<and> \<not> truthy_str (csrfToken pizza_state)
   \<and> map url (sent (handleQuickCheck number_parser True (CsrfResponse (Some ''tok''))
                      (PostOk two_pending_result) pizza_state))
       = [csrf_url, quick_check_url]
   \<and> map url (sent (handleQuickCheck number_parser True CsrfFailed
                      (PostOk two_pending_result) pizza_state))
       = [csrf_url]"
proof -
  have n: "\<not> truthy_str (csrfToken pizza_state)"
    by (simp add: pizza_state_def initial_state_def)
  have ne: "''tok'' \<noteq> []"
    by simp
  show ?thesis
    using pizza_form_valid n ne
      quick_check_token_acquisition
        [OF pizza_form_valid n, where co = CsrfFailed and pf = number_parser
           and po = "PostOk two_pending_result"]
    by blast
qed

section \<open>Credentials and the anti-forgery header\<close>

text \<open>
  C3. The advanced check at a concrete input: the form is filled in, the user is
  authenticated, no token is in the state, none is in the default headers and there is no
  \<open>csrftoken\<close> cookie (the token fetch of the first render has failed). One request is sent,
  to the grid check endpoint, with credentials, and without the header \<open>X-CSRFToken\<close>.
\<close>

theorem advanced_check_sends_no_csrf_header:
  "\<not> missing_required (formData pizza_state)
   \<and> map url (sent (handleAdvancedCheck number_parser number_parser True
                      (PostOk two_pending_result) pizza_state)) = [grid_check_url]
   \<and> map withCredentials (sent (handleAdvancedCheck number_parser number_parser True
                      (PostOk two_pending_result) pizza_state)) = [True]
   \<and> map csrf_header_of (sent (handleAdvancedCheck number_parser number_parser True
                      (PostOk two_pending_result) pizza_state)) = [None]"
proof -
  have a: "axios pizza_state = no_defaults"
    by (simp add: pizza_state_def initial_state_def)
  have s: "sent (handleAdvancedCheck number_parser number_parser True
                   (PostOk two_pending_result) pizza_state)
             = [grid_check_request number_parser number_parser pizza_state]"
    unfolding advanced_valid_unfold [OF pizza_form_valid]
    by (simp add: trace_simps)
  have h: "csrf_header_of (grid_check_request number_parser number_parser pizza_state) = None"
    by (simp add: grid_check_request_def csrf_header_of_def outgoing_headers_def a
                  no_defaults_def csrf_header_name_def)
  show ?thesis
    unfolding s using pizza_form_valid h by (simp add: grid_check_request_def)
qed

text \<open>
  The quick check, in contrast, never sends its POST without that header, and the advanced
  check carries it exactly when the cookie or the default header provides it.
\<close>

lemma quick_check_post_carries_token:
  assumes "r \<in> set (requests_to POST quick_check_url (handleQuickCheck pf a co po st))"
  shows "withCredentials r \<and> (\<exists>t. t \<noteq> [] \<and> csrf_header_of r = Some t)"
proof (cases "missing_required (formData st)")
  case True
  then show ?thesis
    using assms by (simp add: handleQuickCheck_def requests_to_def trace_simps)
next
  case False
  have h: "withCredentials (quick_check_request pf st' ax)
           \<and> (\<exists>t. t \<noteq> [] \<and> csrf_header_of (quick_check_request pf st' ax) = Some t)"
    if "truthy_str (csrfToken st') \<or> truthy_str (commonCsrfHeader ax)" for st' ax
    using that
    by (cases "csrfToken st'"; cases "commonCsrfHeader ax"; cases "xsrfCookie ax")
       (auto simp: quick_check_request_def csrf_header_of_def outgoing_headers_def
                   quick_config_headers_def or_undefined_def csrf_header_name_def)
  show ?thesis
    using assms h [of st "axios st"] h [of st "(axios st)\<lparr>commonCsrfHeader := Some t\<rparr>" for t]
    unfolding quick_valid_unfold [OF False]
    by (cases co)
       (auto simp: requests_to_def trace_simps sent_quick_post csrf_request_def
             split: if_splits option.splits)
qed

lemma advanced_check_header_from_defaults:
  assumes "\<not> missing_required (formData st)"
  shows "map csrf_header_of (sent (handleAdvancedCheck pf pint True po st))
           = [if truthy_str (xsrfCookie (axios st)) then xsrfCookie (axios st)
              else commonCsrfHeader (axios st)]"
  unfolding advanced_valid_unfold [OF assms]
  by (cases po; cases "commonCsrfHeader (axios st)"; cases "xsrfCookie (axios st)")
     (auto simp: trace_simps grid_check_request_def csrf_header_of_def outgoing_headers_def
                 csrf_header_name_def)

section \<open>The rank grid\<close>

text \<open>
  C1, as stated, fails: with a grid of size 4 and a \<open>rank_map\<close> of two entries the rendered
  grid has two cells, not sixteen.
\<close>

theorem rank_grid_cell_count_counterexample:
  "grid_parameters two_pending_result = Some \<lparr>grid_size = Some 4, radius_km = Some 5\<rparr>
   \<and> rank_grid_cell_count two_pending_result = 2
   \<and> rank_grid_cell_count two_pending_result \<noteq> 4 * 4"
  by (simp add: two_pending_result_def rank_grid_cell_count_def renderRankGrid_def)

text \<open>
  C1, amended. \<open>renderResults\<close> yields a view for every result, whatever the size and the
  length of \<open>rank_map\<close> are. Its rank grid is absent when \<open>rank_map\<close> is missing or empty.
  Otherwise the grid has as many cells as \<open>rank_map\<close> has entries, and the cell at each
  position is the one of the entry at that position: its key is the entry's \<open>task_id\<close>, and
  it shows the entry's rank, or the dash, and the entry's status. The size of the grid
  parameters gives the number of columns only, which is 3 when the parameters or the size
  are missing or the size is zero.
\<close>

theorem rank_grid_one_cell_per_entry:
  assumes "results st = Some r"
  shows "\<exists>v. renderResults st = Some v
           \<and> (rank_map r = None \<or> rank_map r = Some [] \<longrightarrow> rank_grid v = None)
           \<and> (\<forall>cs. rank_map r = Some cs \<and> cs \<noteq> [] \<longrightarrow>
                 (\<exists>g. rank_grid v = Some g
                    \<and> length (cells g) = length cs
                    \<and> (\<forall>i<length cs.
                          cell_key (cells g ! i) = task_id (cs ! i)
                        \<and> status_text (cells g ! i) = status (cs ! i)
                        \<and> rank_text (cells g ! i)
                            = (case rank (cs ! i) of
                                 Some k \<Rightarrow> ShowNumber k | None \<Rightarrow> ShowText em_dash))
                    \<and> columns g =
                        (case grid_parameters r of
                           None \<Rightarrow> 3
                         | Some p \<Rightarrow>
                             (case grid_size p of
                                None \<Rightarrow> 3
                              | Some n \<Rightarrow> (if n = 0 then 3 else n)))))"
  using assms
  by (auto simp: renderResults_def renderRankGrid_def grid_columns_def render_cell_def
           split: option.splits)

theorem rank_grid_one_cell_per_entry_witness:
  "results (pizza_state\<lparr>results := Some two_pending_result\<rparr>) = Some two_pending_result
   \<and> (\<exists>v g. renderResults (pizza_state\<lparr>results := Some two_pending_result\<rparr>) = Some v
          \<and> rank_grid v = Some g
          \<and> length (cells g) = 2
          \<and> cell_key (cells g ! 0) = ''a''
          \<and> cell_key (cells g ! 1) = ''b''
          \<and> columns g = 4)"
proof -
  let ?st = "pizza_state\<lparr>results := Some two_pending_result\<rparr>"
  let ?cs = "[pending_cell ''a'', pending_cell ''b'']"
  have r: "results ?st = Some two_pending_result"
    by simp
  have m: "rank_map two_pending_result = Some ?cs \<and> ?cs \<noteq> []"
    by (simp add: two_pending_result_def)
  have p: "grid_parameters two_pending_result = Some \<lparr>grid_size = Some 4, radius_km = Some 5\<rparr>"
    by (simp add: two_pending_result_def)
  obtain v where v: "renderResults ?st = Some v"
    and c: "\<forall>cs. rank_map two_pending_result = Some cs \<and> cs \<noteq> [] \<longrightarrow>
                 (\<exists>g. rank_grid v = Some g
                    \<and> length (cells g) = length cs
                    \<and> (\<forall>i<length cs.
                          cell_key (cells g ! i) = task_id (cs ! i)
                        \<and> status_text (cells g ! i) = status (cs ! i)
                        \<and> rank_text (cells g ! i)
                            = (case rank (cs ! i) of
                                 Some k \<Rightarrow> ShowNumber k | None \<Rightarrow> ShowText em_dash))
                    \<and> columns g =
                        (case grid_parameters two_pending_result of
                           None \<Rightarrow> 3
                         | Some p \<Rightarrow>
                             (case grid_size p of
                                None \<Rightarrow> 3
                              | Some n \<Rightarrow> (if n = 0 then 3 else n))))"
    using rank_grid_one_cell_per_entry [OF r] by blast
  obtain g where g: "rank_grid v = Some g" and l: "length (cells g) = length ?cs"
    and k: "\<forall>i<length ?cs. cell_key (cells g ! i) = task_id (?cs ! i)
                        \<and> status_text (cells g ! i) = status (?cs ! i)
                        \<and> rank_text (cells g ! i)
                            = (case rank (?cs ! i) of
                                 Some k \<Rightarrow> ShowNumber k | None \<Rightarrow> ShowText em_dash)"
    and col: "columns g =
                (case grid_parameters two_pending_result of
                   None \<Rightarrow> 3
                 | Some p \<Rightarrow>
                     (case grid_size p of None \<Rightarrow> 3 | Some n \<Rightarrow> (if n = 0 then 3 else n)))"
    using c m by blast
  have k0: "cell_key (cells g ! 0) = ''a''"
    using k [rule_format, of 0] by (simp add: pending_cell_def)
  have k1: "cell_key (cells g ! 1) = ''b''"
    using k [rule_format, of 1] by (simp add: pending_cell_def)
  have c4: "columns g = 4"
    using col p by simp
  have l2: "length (cells g) = 2"
    using l by simp
  show ?thesis
    using r v g l2 k0 k1 c4 by blast
qed



section \<open>Fetching the history\<close>

text \<open>
  C6. The effects at a concrete input: an authenticated user empties the business name,
  which had been \<open>Pizza Place\<close>. The value has changed, and nothing is sent: no request
  goes to the history endpoint. \<open>fetchHistory\<close> itself would ask for the history without a
  name, with empty parameters, but a change of the name does not run it.
\<close>

theorem history_not_refetched_when_name_cleared:
  "JStr ''Pizza Place'' \<noteq> businessName (formData (initial_state no_defaults))
   \<and> businessName (formData (initial_state no_defaults)) = JStr []
   \<and> requests_to GET history_url
        (effects_on_update True (JStr ''Pizza Place'') True (HistoryResponse (Some []))
           (HistoryResponse (Some [])) (initial_state no_defaults)) = []
   \<and> sent (effects_on_update True (JStr ''Pizza Place'') True (HistoryResponse (Some []))
              (HistoryResponse (Some [])) (initial_state no_defaults)) = []
   \<and> map params (sent (fetchHistory True (HistoryResponse (Some []))
                          (initial_state no_defaults))) = [[]]"
  by (simp add: effects_on_update_def fetchHistoryByName_def fetchHistory_def
                initial_state_def initial_formData_def requests_to_def trace_simps
                history_request_def sent_history_answer)

theorem history_not_refetched_when_name_cleared_witness:
  "businessName (formData (initial_state no_defaults)) = JStr []
   \<and> sent (effects_on_update True (JStr ''Pizza Place'') True (HistoryResponse (Some []))
              (HistoryResponse (Some [])) (initial_state no_defaults)) = []"
  using history_not_refetched_when_name_cleared by blast

text \<open>
  What the effects do send. After a render in which the business name differs from the
  render before, for an authenticated user, exactly one request goes to the history
  endpoint, for the new name, when that name is not empty, and none when it is empty. When
  the user is not authenticated no effect sends anything to the history endpoint, neither
  after a later render nor after the first one.
\<close>

theorem history_refetch_on_name_change:
  assumes "prev_name \<noteq> businessName (formData st)"
  shows "(authenticated \<and> \<not> falsy (businessName (formData st)) \<longrightarrow>
            requests_to GET history_url
              (effects_on_update authenticated prev_name authenticated ha hb st)
              = [history_request (axios st) [(''business_name'', businessName (formData st))]])
       \<and> (authenticated \<and> falsy (businessName (formData st)) \<longrightarrow>
            requests_to GET history_url
              (effects_on_update authenticated prev_name authenticated ha hb st) = [])
       \<and> sent (effects_on_update prev_authenticated prev_name False ha hb st) = []
       \<and> requests_to GET history_url (effects_on_mount False co ha hb st) = []"
  using assms
  by (simp add: effects_on_update_def effects_on_mount_def fetchHistory_def
                fetchHistoryByName_def requests_to_def trace_simps sent_history_answer
                sent_getCsrfToken url_history_request verb_history_request
                url_csrf_request csrf_url_not_history)

theorem history_refetch_on_name_change_witness:
  "JStr [] \<noteq> businessName (formData pizza_state)
   \<and> requests_to GET history_url
        (effects_on_update True (JStr []) True HistoryFailed HistoryFailed pizza_state)
       = [history_request (axios pizza_state) [(''business_name'', JStr ''Pizza Place'')]]
   \<and> sent (effects_on_update True (JStr []) False HistoryFailed HistoryFailed pizza_state) = []"
proof -
  have n: "businessName (formData pizza_state) = JStr ''Pizza Place''"
    by (simp add: pizza_state_def pizza_form_def)
  have d: "JStr [] \<noteq> businessName (formData pizza_state)"
    by (simp add: n)
  show ?thesis
    using d n
      history_refetch_on_name_change
        [OF d, where authenticated = True and ha = HistoryFailed and hb = HistoryFailed
           and prev_authenticated = True]
    by simp
qed

section \<open>Logout\<close>

text \<open>
  C5. Two logouts at a concrete input: the user logs out at time 0, logs in again at 600 ms
  and logs out at once. The timer of the first logout is still pending, since nothing
  cancels it; it is due at 1000 ms and that of the second logout at 1600 ms. At 1000 ms,
  400 ms after the second logout, the first timer clears the flag, the effect calls the
  check-auth endpoint, and an answer that says so makes the user authenticated again.
\<close>

theorem overlapping_logout_allows_early_auth_check:
  "isAuthenticated relogin_state
   \<and> timers relogin_state = [1000]
   \<and> clock relogin_state = 600
   \<and> logoutInProgress second_logout_state
   \<and> timers second_logout_state = [1000, 1600]
   \<and> clock second_logout_state = 600
   \<and> map url (snd (time_event 400 no_defaults (AuthResponse True (Some ''u''))
                      second_logout_state)) = [check_auth_url]
   \<and> isAuthenticated (fst (time_event 400 no_defaults (AuthResponse True (Some ''u''))
                             second_logout_state))"
proof -
  note defs = logout_event_def handleLogout_begin_def handleLogout_resume_def auth_effect_def
    time_event_def elapse_def checkAuthStatus_def Let_def plain_request_def handleLogin_def
    fresh_app_def
  have r: "relogin_state =
             \<lparr>isAuthenticated = True, user = Some ''u'', appLoading = False,
              logoutInProgress = True, localStorage = [], sessionStorage = [],
              timers = [1000], clock = 600\<rparr>"
    by (simp add: relogin_state_def defs)
  have s: "second_logout_state =
             \<lparr>isAuthenticated = False, user = None, appLoading = False,
              logoutInProgress = True, localStorage = [], sessionStorage = [],
              timers = [1000, 1600], clock = 600\<rparr>"
    by (simp add: second_logout_state_def r defs)
  have t: "map url (snd (time_event 400 no_defaults (AuthResponse True (Some ''u''))
                      second_logout_state)) = [check_auth_url]
   \<and> isAuthenticated (fst (time_event 400 no_defaults (AuthResponse True (Some ''u''))
                             second_logout_state))"
    unfolding s by (simp add: defs)
  show ?thesis
    using t unfolding r s by simp
qed

text \<open>
  What holds for every logout: both storages are emptied, the first request is the POST to
  the logout endpoint, and whenever the flag is set \<open>checkAuthStatus\<close> sends nothing and
  forces the unauthenticated state. When no timer of an earlier logout is pending, the logout
  request is the only request sent during the logout, however long it takes; the flag stays
  set for every time short of 1000 ms after the timer was started, and nothing is sent in
  that window; once 1000 ms have passed the flag is cleared and the effect calls the
  check-auth endpoint.
\<close>

theorem logout_quiescence:
  "localStorage (fst (logout_event ax ao w s)) = []
   \<and> sessionStorage (fst (logout_event ax ao w s)) = []
   \<and> verb (hd (snd (logout_event ax ao w s))) = POST
   \<and> url (hd (snd (logout_event ax ao w s))) = logout_url
   \<and> (\<forall>s' ao'. logoutInProgress s' \<longrightarrow>
        checkAuthStatus ax ao' s'
          = (s'\<lparr>isAuthenticated := False, user := None, appLoading := False\<rparr>, []))
   \<and> (timers s = [] \<longrightarrow>
        logoutInProgress (fst (logout_event ax ao w s))
      \<and> \<not> isAuthenticated (fst (logout_event ax ao w s))
      \<and> timers (fst (logout_event ax ao w s)) = [clock s + w + 1000]
      \<and> clock (fst (logout_event ax ao w s)) = clock s + w
      \<and> map url (snd (logout_event ax ao w s)) = [logout_url]
      \<and> (\<forall>d ao'. d < 1000 \<longrightarrow>
            logoutInProgress (fst (time_event d ax ao' (fst (logout_event ax ao w s))))
          \<and> snd (time_event d ax ao' (fst (logout_event ax ao w s))) = []
          \<and> snd (checkAuthStatus ax ao' (fst (time_event d ax ao' (fst (logout_event ax ao w s))))) = []
          \<and> \<not> isAuthenticated
                (fst (checkAuthStatus ax ao' (fst (time_event d ax ao' (fst (logout_event ax ao w s)))))))
      \<and> (\<forall>d ao'. 1000 \<le> d \<longrightarrow>
            \<not> logoutInProgress (fst (time_event d ax ao' (fst (logout_event ax ao w s))))
          \<and> map url (snd (time_event d ax ao' (fst (logout_event ax ao w s)))) = [check_auth_url]))"
proof -
  let ?s1 = "fst (logout_event ax ao w s)"
  note defs = logout_event_def handleLogout_begin_def handleLogout_resume_def auth_effect_def
    time_event_def elapse_def checkAuthStatus_def Let_def plain_request_def
  have sto: "localStorage ?s1 = [] \<and> sessionStorage ?s1 = []"
    by (simp add: logout_event_def handleLogout_resume_def Let_def split: prod.splits)
  have first: "verb (hd (snd (logout_event ax ao w s))) = POST
             \<and> url (hd (snd (logout_event ax ao w s))) = logout_url"
    by (simp add: logout_event_def handleLogout_begin_def plain_request_def Let_def
             split: prod.splits)
  have window:
    "logoutInProgress ?s1
      \<and> \<not> isAuthenticated ?s1
      \<and> timers ?s1 = [clock s + w + 1000]
      \<and> clock ?s1 = clock s + w
      \<and> map url (snd (logout_event ax ao w s)) = [logout_url]
      \<and> (\<forall>d ao'. d < 1000 \<longrightarrow>
            logoutInProgress (fst (time_event d ax ao' ?s1))
          \<and> snd (time_event d ax ao' ?s1) = []
          \<and> snd (checkAuthStatus ax ao' (fst (time_event d ax ao' ?s1))) = []
          \<and> \<not> isAuthenticated (fst (checkAuthStatus ax ao' (fst (time_event d ax ao' ?s1)))))
      \<and> (\<forall>d ao'. 1000 \<le> d \<longrightarrow>
            \<not> logoutInProgress (fst (time_event d ax ao' ?s1))
          \<and> map url (snd (time_event d ax ao' ?s1)) = [check_auth_url])"
    if none: "timers s = []"
  proof -
    have flag: "logoutInProgress ?s1"
      using none by (simp add: defs)
    have tm: "timers ?s1 = [clock s + w + 1000]"
      using none by (simp add: defs)
    have ck: "clock ?s1 = clock s + w"
      using none by (simp add: defs)
    have st: "\<not> isAuthenticated ?s1"
      using none by (simp add: defs)
    have rq: "map url (snd (logout_event ax ao w s)) = [logout_url]"
      using none by (simp add: defs)
    have early: "logoutInProgress (fst (time_event d ax ao' ?s1))
          \<and> snd (time_event d ax ao' ?s1) = []
          \<and> snd (checkAuthStatus ax ao' (fst (time_event d ax ao' ?s1))) = []
          \<and> \<not> isAuthenticated (fst (checkAuthStatus ax ao' (fst (time_event d ax ao' ?s1))))"
      if "d < 1000" for d ao'
    proof -
      have e: "logoutInProgress (elapse d ?s1)"
        using that flag tm ck by (simp add: elapse_def Let_def)
      have t: "time_event d ax ao' ?s1 = (elapse d ?s1, [])"
        using e flag by (simp add: time_event_def auth_effect_def)
      show ?thesis
        unfolding t using e by (simp add: checkAuthStatus_suppressed)
    qed
    have late: "\<not> logoutInProgress (fst (time_event d ax ao' ?s1))
          \<and> map url (snd (time_event d ax ao' ?s1)) = [check_auth_url]"
      if "1000 \<le> d" for d ao'
    proof -
      have e: "\<not> logoutInProgress (elapse d ?s1)"
        using that flag tm ck by (simp add: elapse_def Let_def)
      have t: "time_event d ax ao' ?s1 = checkAuthStatus ax ao' (elapse d ?s1)"
        using e flag by (simp add: time_event_def auth_effect_def)
      show ?thesis
        unfolding t using e checkAuthStatus_proceeds [OF e]
        by (cases ao') (auto simp: checkAuthStatus_def split: bool.splits)
    qed
    show ?thesis
      using flag tm ck st rq early late by blast
  qed
  show ?thesis
    using sto first window checkAuthStatus_suppressed by blast
qed

theorem logout_quiescence_witness:
  "timers fresh_app = []
   \<and> localStorage (fst (logout_event no_defaults AuthFailed 250 fresh_app)) = []
   \<and> sessionStorage (fst (logout_event no_defaults AuthFailed 250 fresh_app)) = []
   \<and> snd (time_event 999 no_defaults (AuthResponse True (Some ''u''))
             (fst (logout_event no_defaults AuthFailed 250 fresh_app))) = []
   \<and> map url (snd (time_event 1000 no_defaults (AuthResponse True (Some ''u''))
             (fst (logout_event no_defaults AuthFailed 250 fresh_app)))) = [check_auth_url]"
proof -
  have t: "timers fresh_app = []"
    by (simp add: fresh_app_def)
  have a: "(999::nat) < 1000" and b: "(1000::nat) \<le> 1000"
    by simp_all
  show ?thesis
    using t a b logout_quiescence [of no_defaults AuthFailed 250 fresh_app]
    by blast
qed

end
